theory Spec2Isabelle
  imports Complex_Main "HOL-Library.Word" "HOL-Library.Sublist"
begin

section \<open>Python values, exceptions and text\<close>

text \<open>
  The repository is a Python program: an image generator class (image_gen/generator.py),
  its settings helpers (core/settings.py) and a tool server (mcp/server.py).  A string is
  a list of characters with code points below 256 (a \<open>char\<close> is its code point), Python's
  unbounded integers are \<open>int\<close>, byte buffers are lists of 8-bit words.  Python floats (the guidance scale, clock readings) are only
  passed around by the code; they are carried as \<open>real\<close> and the one float subtraction of
  the source is a parameter of the environment.  The two prints of \<open>enhance_prompt\<close> are
  external calls that may raise (standard output may refuse the text), because whether
  that function returns depends on them; the other prints of the program are not
  modelled.
\<close>

type_synonym bytes = "8 word list"

text \<open>JSON-like values as they arrive in the argument dictionary of a tool call.\<close>

datatype pyval = PNone | PBool bool | PInt int | PStr string | PList "string list"

text \<open>
  The exceptions the code can meet, all subclasses of Python's \<open>Exception\<close>.  A
  \<open>ValueError\<close> carries what determines its message: the rejected literal of \<open>int()\<close>,
  the number of digits of a literal beyond the interpreter's limit, the number of values
  of a failed unpacking, or the unknown tool name of server.py line 194.
\<close>

datatype value_error =
    InvalidLiteral string
  | TooManyDigits nat
  | NotEnoughValues nat
  | TooManyValues
  | UnknownTool string

datatype exn =
    ValueError value_error
  | KeyError string
  | AttributeError string
  | TypeError string
  | OutOfMemoryError
  | OtherError string

subsection \<open>\<open>str.strip\<close>, \<open>str.split\<close>, \<open>int\<close>, \<open>str\<close>\<close>

text \<open>The characters \<open>str.isspace\<close> accepts, which are the ones \<open>str.strip\<close> drops.\<close>

definition is_space :: "char \<Rightarrow> bool" where
  "is_space c = (c \<in> set [CHR 0x09, CHR 0x0A, CHR 0x0B, CHR 0x0C, CHR 0x0D,
                           CHR 0x1C, CHR 0x1D, CHR 0x1E, CHR 0x1F, CHR 0x20,
                           CHR 0x85, CHR 0xA0])"

definition py_strip :: "string \<Rightarrow> string" where
  "py_strip s = rev (dropWhile is_space (rev (dropWhile is_space s)))"

text \<open>\<open>s.split(sep)\<close> for a one-character separator: every occurrence splits, and the
  result always has at least one piece.\<close>

fun py_split :: "char \<Rightarrow> string \<Rightarrow> string list" where
  "py_split sep [] = [[]]"
| "py_split sep (c # cs) =
     (if c = sep then [] # py_split sep cs
      else (case py_split sep cs of p # ps \<Rightarrow> (c # p) # ps | [] \<Rightarrow> [[c]]))"

definition is_digit :: "char \<Rightarrow> bool" where
  "is_digit c = (48 \<le> (of_char c :: nat) \<and> (of_char c :: nat) \<le> 57)"

definition digit_val :: "char \<Rightarrow> nat" where
  "digit_val c = of_char c - 48"

definition digit_char :: "nat \<Rightarrow> char" where
  "digit_char d = char_of (48 + d)"

text \<open>The digits of an \<open>int()\<close> literal after the first one: single underscores are allowed
  between digits only.\<close>

fun int_digits :: "nat \<Rightarrow> string \<Rightarrow> nat option" where
  "int_digits acc [] = Some acc"
| "int_digits acc [c] =
     (if is_digit c then Some (10 * acc + digit_val c) else None)"
| "int_digits acc (c # d # cs) =
     (if is_digit c then int_digits (10 * acc + digit_val c) (d # cs)
      else if c = CHR ''_'' \<and> is_digit d then int_digits (10 * acc + digit_val d) cs
      else None)"

definition int_body :: "string \<Rightarrow> nat option" where
  "int_body s = (case s of [] \<Rightarrow> None
                 | c # cs \<Rightarrow> if is_digit c then int_digits (digit_val c) cs else None)"

text \<open>
  \<open>int(s)\<close> on a string, base 10, as the interpreter does it.  The two whitespace
  characters above code point 127 are first turned into blanks; then only the six
  whitespace characters of the C locale are dropped at both ends (so the separators
  0x1C to 0x1F, which \<open>str.strip\<close> drops, make the literal invalid); one sign is accepted,
  leading zeros are accepted.  The literal proper is scanned as far as digits and
  underscores reach: misplaced underscores are rejected first, then a count of more than
  4300 digits (the default of \<open>sys.int_max_str_digits\<close>), then anything left over.
\<close>

definition is_ascii_space :: "char \<Rightarrow> bool" where
  "is_ascii_space c = (c \<in> set [CHR 0x09, CHR 0x0A, CHR 0x0B, CHR 0x0C, CHR 0x0D, CHR 0x20])"

definition spaces_to_ascii :: "string \<Rightarrow> string" where
  "spaces_to_ascii s = map (\<lambda>c. if c = CHR 0x85 \<or> c = CHR 0xA0 then CHR 0x20 else c) s"

definition int_strip :: "string \<Rightarrow> string" where
  "int_strip s = rev (dropWhile is_ascii_space (rev (dropWhile is_ascii_space s)))"

definition int_max_str_digits :: nat where
  "int_max_str_digits = 4300"

definition in_literal :: "char \<Rightarrow> bool" where
  "in_literal c = (is_digit c \<or> c = CHR ''_'')"

definition int_literal :: "string \<Rightarrow> string \<Rightarrow> exn + nat" where
  "int_literal s body =
     (case int_body (takeWhile in_literal body) of
        None \<Rightarrow> Inl (ValueError (InvalidLiteral s))
      | Some n \<Rightarrow>
          if int_max_str_digits < length (filter is_digit (takeWhile in_literal body))
          then Inl (ValueError (TooManyDigits (length (filter is_digit (takeWhile in_literal body)))))
          else if dropWhile in_literal body \<noteq> [] then Inl (ValueError (InvalidLiteral s))
          else Inr n)"

definition py_int :: "string \<Rightarrow> exn + int" where
  "py_int s =
     (case int_strip (spaces_to_ascii s) of
        [] \<Rightarrow> Inl (ValueError (InvalidLiteral s))
      | c # cs \<Rightarrow>
          if c = CHR ''-'' then (case int_literal s cs of Inl e \<Rightarrow> Inl e | Inr n \<Rightarrow> Inr (- int n))
          else if c = CHR ''+'' then (case int_literal s cs of Inl e \<Rightarrow> Inl e | Inr n \<Rightarrow> Inr (int n))
          else (case int_literal s (c # cs) of Inl e \<Rightarrow> Inl e | Inr n \<Rightarrow> Inr (int n)))"

fun str_nat :: "nat \<Rightarrow> string" where
  "str_nat n = (if n < 10 then [digit_char n] else str_nat (n div 10) @ [digit_char (n mod 10)])"

declare str_nat.simps [simp del]

text \<open>\<open>str(i)\<close>, also what an f-string does with an integer.  (The integers the program
  formats come from \<open>int()\<close> on a string or on a clock reading, so they are within the
  interpreter's limit for this conversion.)\<close>

definition py_str :: "int \<Rightarrow> string" where
  "py_str i = (if i < 0 then CHR ''-'' # str_nat (nat (- i)) else str_nat (nat i))"

text \<open>\<open>int(x)\<close> on a float truncates towards zero.\<close>

definition py_int_of_float :: "real \<Rightarrow> int" where
  "py_int_of_float r = (if 0 \<le> r then \<lfloor>r\<rfloor> else \<lceil>r\<rceil>)"

text \<open>\<open>str(directory / name)\<close> of pathlib for a POSIX directory given by its normalised
  text and a plain file name.\<close>

definition path_join :: "string \<Rightarrow> string \<Rightarrow> string" where
  "path_join dir name =
     (if dir = [] \<or> dir = ''.'' then name
      else if last dir = CHR ''/'' then dir @ name
      else dir @ ''/'' @ name)"

section \<open>core/settings.py\<close>

record settings =
  ollama_host :: string
  default_image_size :: string
  output_path :: string
  sd3_model_path :: string
  prompt_enhancer_model :: string

definition default_settings :: settings where
  "default_settings =
     \<lparr> ollama_host = ''http://localhost:11434'',
       default_image_size = ''1024x1024'',
       output_path = ''output'',
       sd3_model_path = ''stabilityai/stable-diffusion-3-medium-diffusers'',
       prompt_enhancer_model = ''brxce/stable-diffusion-prompt-generator'' \<rparr>"

text \<open>\<open>width, height = map(int, parts)\<close>: the iterator is consumed one element at a time,
  so the pieces are converted in order and a third piece is still converted before the
  unpacking complains about it.\<close>

definition unpack_two_ints :: "string list \<Rightarrow> exn + int \<times> int" where
  "unpack_two_ints parts =
     (case parts of
        [] \<Rightarrow> Inl (ValueError (NotEnoughValues 0))
      | a # rest \<Rightarrow>
          (case py_int a of
             Inl e \<Rightarrow> Inl e
           | Inr w \<Rightarrow>
               (case rest of
                  [] \<Rightarrow> Inl (ValueError (NotEnoughValues 1))
                | b # rest' \<Rightarrow>
                    (case py_int b of
                       Inl e \<Rightarrow> Inl e
                     | Inr h \<Rightarrow>
                         (case rest' of
                            [] \<Rightarrow> Inr (w, h)
                          | c # _ \<Rightarrow>
                              (case py_int c of
                                 Inl e \<Rightarrow> Inl e
                               | Inr _ \<Rightarrow> Inl (ValueError TooManyValues)))))))"

definition get_image_size_tuple :: "settings \<Rightarrow> string option \<Rightarrow> exn + int \<times> int" where
  "get_image_size_tuple cfg size_str =
     (let s = (case size_str of
                 None \<Rightarrow> default_image_size cfg
               | Some t \<Rightarrow> if t = [] then default_image_size cfg else t)
      in unpack_two_ints (py_split CHR ''x'' s))"

section \<open>The generator object and the world around it\<close>

type_synonym pipeline_obj = nat
type_synonym image_obj = nat

text \<open>Every call that leaves the program (model library, text service, clock, files,
  device caches, the other collaborators of the server) is written to a trace, in order.\<close>

text \<open>What the two prints of \<open>enhance_prompt\<close> write: the enhanced prompt (line 69),
  or the exception that made the enhancement fail (line 73).\<close>

datatype print_text = EnhancedPromptText string | EnhancementFailedText exn

datatype event =
    EvFromPretrained string
  | EvEnableModelCpuOffload pipeline_obj
  | EvEnableVaeSlicing pipeline_obj
  | EvEnableAttentionSlicing pipeline_obj
  | EvPipelineTo pipeline_obj string
  | EvOllamaGenerate string string
  | EvPrint print_text
  | EvTimeTime
  | EvAutocast string
  | EvPipelineCall pipeline_obj string int int int real
  | EvImageSave image_obj string
  | EvImageSavePNG image_obj
  | EvEmptyCache
  | EvCaptionGenerate string string string bool
  | EvSchedule pyval pyval pyval
  | EvGetCalendar pyval
  | EvApplyBranding pyval pyval pyval

record state =
  pipeline :: "pipeline_obj option"
  device :: string
  trace :: "event list"

text \<open>The environment answers each external call from the history of calls so far; an
  answer \<open>Inl e\<close> is the exception the call raises.\<close>

record env =
  cfg :: settings
  cuda_is_available :: bool
  mps_is_available :: bool
  from_pretrained :: "event list \<Rightarrow> string \<Rightarrow> exn + pipeline_obj"
  enable_model_cpu_offload :: "event list \<Rightarrow> pipeline_obj \<Rightarrow> exn + unit"
  enable_vae_slicing :: "event list \<Rightarrow> pipeline_obj \<Rightarrow> exn + unit"
  enable_attention_slicing :: "event list \<Rightarrow> pipeline_obj \<Rightarrow> exn + unit"
  pipeline_to :: "event list \<Rightarrow> pipeline_obj \<Rightarrow> string \<Rightarrow> exn + pipeline_obj"
  ollama_generate :: "event list \<Rightarrow> string \<Rightarrow> string \<Rightarrow> exn + (string \<rightharpoonup> pyval)"
  print_line :: "event list \<Rightarrow> print_text \<Rightarrow> exn + unit"
  time_time :: "event list \<Rightarrow> real"
  float_sub :: "real \<Rightarrow> real \<Rightarrow> real"
  autocast :: "event list \<Rightarrow> string \<Rightarrow> exn + unit"
  pipeline_call :: "event list \<Rightarrow> pipeline_obj \<Rightarrow> string \<Rightarrow> int \<Rightarrow> int \<Rightarrow> int \<Rightarrow> real \<Rightarrow> exn + image_obj"
  image_save :: "event list \<Rightarrow> image_obj \<Rightarrow> string \<Rightarrow> exn + unit"
  image_save_png :: "event list \<Rightarrow> image_obj \<Rightarrow> exn + bytes"
  caption_generate :: "event list \<Rightarrow> string \<Rightarrow> string \<Rightarrow> string \<Rightarrow> bool \<Rightarrow> exn + string"
  scheduler_schedule :: "event list \<Rightarrow> pyval \<Rightarrow> pyval \<Rightarrow> pyval \<Rightarrow> exn + string"
  scheduler_get_calendar :: "event list \<Rightarrow> pyval \<Rightarrow> exn + string"
  apply_branding :: "event list \<Rightarrow> pyval \<Rightarrow> pyval \<Rightarrow> pyval \<Rightarrow> exn + string"

subsection \<open>Sequencing, raising and catching\<close>

type_synonym 'a io = "state \<Rightarrow> (exn + 'a) \<times> state"

definition returnE :: "'a \<Rightarrow> 'a io" where
  "returnE x st = (Inr x, st)"

definition raiseE :: "exn \<Rightarrow> 'a io" where
  "raiseE e st = (Inl e, st)"

definition bindE :: "'a io \<Rightarrow> ('a \<Rightarrow> 'b io) \<Rightarrow> 'b io" where
  "bindE m f st = (case m st of (Inl e, st') \<Rightarrow> (Inl e, st') | (Inr x, st') \<Rightarrow> f x st')"

definition tryE :: "'a io \<Rightarrow> (exn \<Rightarrow> 'a io) \<Rightarrow> 'a io" where
  "tryE m handler st = (case m st of (Inl e, st') \<Rightarrow> handler e st' | (Inr x, st') \<Rightarrow> (Inr x, st'))"

definition extern :: "event \<Rightarrow> (event list \<Rightarrow> exn + 'a) \<Rightarrow> 'a io" where
  "extern ev answer st = (answer (trace st), st\<lparr>trace := trace st @ [ev]\<rparr>)"

text \<open>Reading an attribute of the object, and the outcome of a pure computation.\<close>

definition gets :: "(state \<Rightarrow> 'a) \<Rightarrow> 'a io" where
  "gets f st = (Inr (f st), st)"

definition liftE :: "exn + 'a \<Rightarrow> 'a io" where
  "liftE r st = (r, st)"

definition set_pipeline :: "pipeline_obj option \<Rightarrow> unit io" where
  "set_pipeline p st = (Inr (), st\<lparr>pipeline := p\<rparr>)"

definition empty_cache :: "unit io" where
  "empty_cache = extern EvEmptyCache (\<lambda>h. Inr ())"

definition clock :: "env \<Rightarrow> real io" where
  "clock env = extern EvTimeTime (\<lambda>h. Inr (time_time env h))"

section \<open>image_gen/generator.py\<close>

definition get_device :: "env \<Rightarrow> string" where
  "get_device env =
     (if cuda_is_available env then ''cuda''
      else if mps_is_available env then ''mps''
      else ''cpu'')"

text \<open>\<open>ImageGenerator.__init__\<close>: no pipeline yet, the device chosen once.\<close>

definition init :: "env \<Rightarrow> state" where
  "init env = \<lparr> pipeline = None, device = get_device env, trace = [] \<rparr>"

text \<open>\<open>load_model\<close>: returns at once when a pipeline is present.  Otherwise the pipeline
  is fetched and stored in \<open>self.pipeline\<close>, the three memory options are switched on, and
  the object returned by \<open>.to(device)\<close> is stored again.  Each library call may raise; what
  was stored before stays stored.\<close>

definition load_model :: "env \<Rightarrow> unit io" where
  "load_model env =
     bindE (gets pipeline) (\<lambda>current.
      if current \<noteq> None then returnE ()
      else
        bindE (extern (EvFromPretrained (sd3_model_path (cfg env)))
                 (\<lambda>h. from_pretrained env h (sd3_model_path (cfg env)))) (\<lambda>p.
        bindE (set_pipeline (Some p)) (\<lambda>_.
        bindE (extern (EvEnableModelCpuOffload p) (\<lambda>h. enable_model_cpu_offload env h p)) (\<lambda>_.
        bindE (extern (EvEnableVaeSlicing p) (\<lambda>h. enable_vae_slicing env h p)) (\<lambda>_.
        bindE (extern (EvEnableAttentionSlicing p) (\<lambda>h. enable_attention_slicing env h p)) (\<lambda>_.
        bindE (gets device) (\<lambda>dev.
        bindE (extern (EvPipelineTo p dev) (\<lambda>h. pipeline_to env h p dev)) (\<lambda>q.
        set_pipeline (Some q)))))))))"

definition newline :: string where
  "newline = [CHR 0x0A]"

text \<open>The f-string sent to the text service; \<open>style_preference or '...'\<close> takes the default
  for \<open>None\<close> and for the empty string.\<close>

definition enhancement_request :: "string \<Rightarrow> string option \<Rightarrow> string" where
  "enhancement_request basic_prompt style_preference =
     ''Transform this basic description into a detailed, artistic prompt for Stable Diffusion:''
     @ newline @ ''            '' @ newline
     @ ''Basic idea: '' @ basic_prompt @ newline
     @ ''Style preference: ''
     @ (case style_preference of
          None \<Rightarrow> ''creative and professional''
        | Some s \<Rightarrow> if s = [] then ''creative and professional'' else s)
     @ newline @ newline
     @ ''Make it detailed with artistic elements, lighting, composition, and quality modifiers.''"

definition fallback_prompt :: "string \<Rightarrow> string" where
  "fallback_prompt basic_prompt =
     basic_prompt @ '', high quality, detailed, professional photography''"

text \<open>The body of the \<open>try\<close> of \<open>enhance_prompt\<close>: one request to the service, then
  \<open>response['response'].strip()\<close>, which raises when the key is missing or the value is
  not a string, then the print of the enhanced prompt.\<close>

definition enhance_prompt_try :: "env \<Rightarrow> string \<Rightarrow> string option \<Rightarrow> string io" where
  "enhance_prompt_try env basic_prompt style_preference =
     bindE (extern (EvOllamaGenerate (prompt_enhancer_model (cfg env))
                      (enhancement_request basic_prompt style_preference))
              (\<lambda>h. ollama_generate env h (prompt_enhancer_model (cfg env))
                      (enhancement_request basic_prompt style_preference))) (\<lambda>response.
       (case response ''response'' of
          None \<Rightarrow> raiseE (KeyError ''response'')
        | Some (PStr s) \<Rightarrow>
            bindE (extern (EvPrint (EnhancedPromptText (py_strip s)))
                     (\<lambda>h. print_line env h (EnhancedPromptText (py_strip s)))) (\<lambda>_.
            returnE (py_strip s))
        | Some _ \<Rightarrow> raiseE (AttributeError ''strip'')))"

text \<open>The handler catches every exception of the body, prints it, and returns the
  fallback.  The print is outside any \<open>try\<close>: what it raises leaves the function.\<close>

definition enhance_prompt :: "env \<Rightarrow> string \<Rightarrow> string option \<Rightarrow> string io" where
  "enhance_prompt env basic_prompt style_preference =
     tryE (enhance_prompt_try env basic_prompt style_preference)
          (\<lambda>e. bindE (extern (EvPrint (EnhancementFailedText e))
                        (\<lambda>h. print_line env h (EnhancementFailedText e))) (\<lambda>_.
                returnE (fallback_prompt basic_prompt)))"

text \<open>The dictionary \<open>generate\<close> returns.\<close>

record result =
  res_image_path :: string
  res_image_data :: bytes
  res_prompt :: string
  res_size :: string
  res_generation_time :: real
  res_steps :: int
  res_guidance_scale :: real

definition image_filename :: "int \<Rightarrow> int \<Rightarrow> int \<Rightarrow> string" where
  "image_filename timestamp width height =
     ''generated_'' @ py_str timestamp @ ''_'' @ py_str width @ ''x'' @ py_str height @ ''.png''"

text \<open>\<open>self.pipeline(...)\<close> reads the attribute when it is called.\<close>

definition run_pipeline ::
  "env \<Rightarrow> string \<Rightarrow> int \<Rightarrow> int \<Rightarrow> int \<Rightarrow> real \<Rightarrow> image_obj io" where
  "run_pipeline env prompt width height steps guidance_scale =
     bindE (gets pipeline) (\<lambda>current.
       case current of
         None \<Rightarrow> raiseE (TypeError ''NoneType object is not callable'')
       | Some p \<Rightarrow>
           extern (EvPipelineCall p prompt width height steps guidance_scale)
             (\<lambda>h. pipeline_call env h p prompt width height steps guidance_scale))"

text \<open>\<open>image.save(img_bytes, format='PNG')\<close> writes the eight bytes that open every PNG
  file and then the chunks of the image; the chunks are the environment's answer
  \<open>image_save_png\<close>, and the buffer read back holds both.\<close>

definition png_signature :: bytes where
  "png_signature = [0x89, 0x50, 0x4E, 0x47, 0x0D, 0x0A, 0x1A, 0x0A]"

text \<open>Lines 107 to 142, the body of the \<open>try\<close> of \<open>generate\<close>.\<close>

definition generate_try ::
  "env \<Rightarrow> real \<Rightarrow> string \<Rightarrow> int \<Rightarrow> int \<Rightarrow> int \<Rightarrow> real \<Rightarrow> result io" where
  "generate_try env start_time prompt width height steps guidance_scale =
     bindE (gets device) (\<lambda>dev.
     bindE (extern (EvAutocast dev) (\<lambda>h. autocast env h dev)) (\<lambda>_.
     bindE (run_pipeline env prompt width height steps guidance_scale) (\<lambda>image.
     bindE (clock env) (\<lambda>t1.
     bindE (clock env) (\<lambda>t2.
     bindE (extern (EvImageSave image
                      (path_join (output_path (cfg env))
                         (image_filename (py_int_of_float t2) width height)))
              (\<lambda>h. image_save env h image
                      (path_join (output_path (cfg env))
                         (image_filename (py_int_of_float t2) width height)))) (\<lambda>_.
     bindE (extern (EvImageSavePNG image) (\<lambda>h. image_save_png env h image)) (\<lambda>chunks.
     returnE
       \<lparr> res_image_path =
           path_join (output_path (cfg env)) (image_filename (py_int_of_float t2) width height),
         res_image_data = png_signature @ chunks,
         res_prompt = prompt,
         res_size = py_str width @ ''x'' @ py_str height,
         res_generation_time = float_sub env t1 start_time,
         res_steps = steps,
         res_guidance_scale = guidance_scale \<rparr>)))))))"

text \<open>Lines 144 to 151, the two handlers: on the device's out-of-memory error the caches
  are emptied and the same exception is raised again; any other exception is raised
  again as it is.\<close>

definition generate_except :: "exn \<Rightarrow> result io" where
  "generate_except e =
     (if e = OutOfMemoryError then bindE empty_cache (\<lambda>_. raiseE e) else raiseE e)"

text \<open>Lines 88 to 98: load, then the working prompt, then the size.\<close>

definition working_prompt :: "env \<Rightarrow> string \<Rightarrow> string option \<Rightarrow> bool \<Rightarrow> string io" where
  "working_prompt env prompt style do_enhance =
     (if do_enhance then enhance_prompt env prompt style
      else (case style of
              None \<Rightarrow> returnE prompt
            | Some s \<Rightarrow> if s = [] then returnE prompt
                        else returnE (prompt @ '', '' @ s @ '' style'')))"

definition parse_size :: "env \<Rightarrow> string \<Rightarrow> (int \<times> int) io" where
  "parse_size env size_str = liftE (get_image_size_tuple (cfg env) (Some size_str))"

definition generate ::
  "env \<Rightarrow> string \<Rightarrow> string option \<Rightarrow> string \<Rightarrow> int \<Rightarrow> real \<Rightarrow> bool \<Rightarrow> result io" where
  "generate env prompt style size_str steps guidance_scale do_enhance =
     bindE (load_model env) (\<lambda>_.
     bindE (working_prompt env prompt style do_enhance) (\<lambda>prompt'.
     bindE (parse_size env size_str) (\<lambda>(width, height).
     bindE (clock env) (\<lambda>start_time.
     tryE (generate_try env start_time prompt' width height steps guidance_scale)
          generate_except))))"

text \<open>The keyword arguments \<open>generate_batch\<close> hands on to \<open>generate\<close>; a missing one takes
  the default of the signature of \<open>generate\<close>.\<close>

record kwargs =
  kw_style :: "string option"
  kw_size :: "string option"
  kw_steps :: "int option"
  kw_guidance_scale :: "real option"
  kw_enhance_prompt :: "bool option"

definition no_kwargs :: kwargs where
  "no_kwargs = \<lparr> kw_style = None, kw_size = None, kw_steps = None,
                  kw_guidance_scale = None, kw_enhance_prompt = None \<rparr>"

definition generate_kw :: "env \<Rightarrow> string \<Rightarrow> kwargs \<Rightarrow> result io" where
  "generate_kw env prompt kw =
     generate env prompt (kw_style kw)
       (case kw_size kw of None \<Rightarrow> ''1024x1024'' | Some s \<Rightarrow> s)
       (case kw_steps kw of None \<Rightarrow> 30 | Some n \<Rightarrow> n)
       (case kw_guidance_scale kw of None \<Rightarrow> 7 | Some g \<Rightarrow> g)
       (case kw_enhance_prompt kw of None \<Rightarrow> True | Some b \<Rightarrow> b)"

text \<open>The loop of \<open>generate_batch\<close>, with the list \<open>results\<close> it appends to.\<close>

fun generate_batch_loop :: "env \<Rightarrow> kwargs \<Rightarrow> string list \<Rightarrow> result list \<Rightarrow> result list io" where
  "generate_batch_loop env kw [] results st = returnE results st"
| "generate_batch_loop env kw (prompt # prompts) results st =
     bindE (generate_kw env prompt kw) (\<lambda>r.
     bindE (if cuda_is_available env then empty_cache else returnE ()) (\<lambda>_.
     generate_batch_loop env kw prompts (results @ [r]))) st"

definition generate_batch :: "env \<Rightarrow> string list \<Rightarrow> kwargs \<Rightarrow> result list io" where
  "generate_batch env prompts kw = generate_batch_loop env kw prompts []"

definition unload_model :: "env \<Rightarrow> unit io" where
  "unload_model env =
     bindE (gets pipeline) (\<lambda>current.
       if current \<noteq> None then
         bindE (set_pipeline None) (\<lambda>_.
           if cuda_is_available env then empty_cache else returnE ())
       else returnE ())"

section \<open>mcp/server.py\<close>

record tool =
  tool_name :: string
  description :: string
  properties :: "(string \<times> string \<times> string) list"
  required :: "string list"

text \<open>\<open>handle_list_tools\<close>: each property is (name, JSON type, description).\<close>

definition handle_list_tools :: "tool list" where
  "handle_list_tools =
     [ \<lparr> tool_name = ''generate_image'',
         description = ''Generate an image using Stable Diffusion based on a text prompt'',
         properties =
           [ (''prompt'', ''string'', ''Text description of image to generate''),
             (''style'', ''string'', ''Art style (optional): realistic, cartoon, abstract, etc.''),
             (''size'', ''string'', ''Image size: 1024x1024, 1024x576, etc.''),
             (''steps'', ''integer'', ''Inference steps (default: 30)'') ],
         required = [''prompt''] \<rparr>,
       \<lparr> tool_name = ''enhance_prompt'',
         description = ''Enhance a basic prompt into a detailed SD prompt using local LLM'',
         properties =
           [ (''basic_prompt'', ''string'', ''Simple description to enhance''),
             (''style_preference'', ''string'', ''Preferred artistic style'') ],
         required = [''basic_prompt''] \<rparr>,
       \<lparr> tool_name = ''create_social_post'',
         description = ''Generate a complete social media post with image and caption'',
         properties =
           [ (''theme'', ''string'', ''Content theme/topic''),
             (''platform'', ''string'', ''Target platform: instagram, twitter, linkedin''),
             (''tone'', ''string'', ''Content tone: professional, casual, inspirational''),
             (''include_hashtags'', ''boolean'', ''Whether to include hashtags'') ],
         required = [''theme'', ''platform''] \<rparr>,
       \<lparr> tool_name = ''schedule_content'',
         description = ''Schedule content for future posting'',
         properties =
           [ (''content_id'', ''string'', ''ID of generated content''),
             (''schedule_time'', ''string'', ''ISO datetime string''),
             (''platforms'', ''array'', ''Target platforms'') ],
         required = [''content_id'', ''schedule_time'', ''platforms''] \<rparr>,
       \<lparr> tool_name = ''get_content_calendar'',
         description = ''View scheduled content and pipeline status'',
         properties =
           [ (''date_range'', ''string'', ''Date range: this_week, next_week, this_month'') ],
         required = [] \<rparr>,
       \<lparr> tool_name = ''brand_assets'',
         description = ''Apply brand assets (logo, colors, fonts) to generated content'',
         properties =
           [ (''image_path'', ''string'', ''Path to image to brand''),
             (''template'', ''string'', ''Brand template: minimal, bold, elegant''),
             (''add_logo'', ''boolean'', ''Whether to add company logo'') ],
         required = [''image_path''] \<rparr>,
       \<lparr> tool_name = ''analyze_content_performance'',
         description = ''Get insights on content performance and suggestions'',
         properties =
           [ (''time_period'', ''string'', ''Analysis period: week, month, quarter''),
             (''metric'', ''string'', ''Metric to analyze: engagement, reach, clicks'') ],
         required = [] \<rparr> ]"

definition registered :: "string \<Rightarrow> bool" where
  "registered name = (name \<in> set (map tool_name handle_list_tools))"

definition required_of :: "string \<Rightarrow> string list" where
  "required_of name = concat (map required (filter (\<lambda>t. tool_name t = name) handle_list_tools))"


text \<open>The parts of a response.\<close>

datatype content = TextContent string | ImageContent bytes string

text \<open>\<open>arguments[key]\<close> and \<open>arguments.get(key, default)\<close>.\<close>

definition subscript :: "(string \<rightharpoonup> pyval) \<Rightarrow> string \<Rightarrow> exn + pyval" where
  "subscript arguments key =
     (case arguments key of None \<Rightarrow> Inl (KeyError key) | Some v \<Rightarrow> Inr v)"

definition get_or :: "(string \<rightharpoonup> pyval) \<Rightarrow> string \<Rightarrow> pyval \<Rightarrow> pyval" where
  "get_or arguments key dflt = (case arguments key of None \<Rightarrow> dflt | Some v \<Rightarrow> v)"

text \<open>
  \<open>generate\<close>, \<open>enhance_prompt\<close>, \<open>create_complete_post\<close> and \<open>analyze_performance\<close> are
  modelled at the types their signatures declare.  The readers below give \<open>None\<close> for a
  value of another type, and \<open>handle_call_tool\<close> then gives \<open>None\<close>: the model says nothing
  about such a call.  Missing keys and unknown names are decided before that, as in the
  source, where the argument expressions are evaluated left to right before the call.
\<close>

definition as_str :: "pyval \<Rightarrow> string option" where
  "as_str v = (case v of PStr s \<Rightarrow> Some s | _ \<Rightarrow> None)"

definition as_opt_str :: "pyval \<Rightarrow> string option option" where
  "as_opt_str v = (case v of PNone \<Rightarrow> Some None | PStr s \<Rightarrow> Some (Some s) | _ \<Rightarrow> None)"

definition as_int :: "pyval \<Rightarrow> int option" where
  "as_int v = (case v of PInt n \<Rightarrow> Some n | _ \<Rightarrow> None)"

definition as_bool :: "pyval \<Rightarrow> bool option" where
  "as_bool v = (case v of PBool b \<Rightarrow> Some b | _ \<Rightarrow> None)"

text \<open>\<open>create_complete_post\<close>: one image with the defaults of \<open>generate\<close>, then the caption
  from the caption collaborator.\<close>

definition create_complete_post ::
  "env \<Rightarrow> string \<Rightarrow> string \<Rightarrow> string \<Rightarrow> bool \<Rightarrow> (string \<times> bytes \<times> string \<times> string) io" where
  "create_complete_post env theme platform tone include_hashtags =
     bindE (generate env (theme @ '' content for '' @ platform)
              (Some (if tone = ''professional'' then ''professional'' else ''creative''))
              ''1024x1024'' 30 7 True) (\<lambda>image_result.
     bindE (extern (EvCaptionGenerate theme platform tone include_hashtags)
              (\<lambda>h. caption_generate env h theme platform tone include_hashtags)) (\<lambda>caption.
     returnE (res_image_path image_result, res_image_data image_result, caption, platform)))"

definition analyze_performance :: "string \<Rightarrow> string \<Rightarrow> string" where
  "analyze_performance time_period metric =
     ''Analysis for '' @ time_period @ '': '' @ metric @ '' trending upward''"

definition call_generate_image :: "env \<Rightarrow> pyval \<Rightarrow> pyval \<Rightarrow> pyval \<Rightarrow> pyval \<Rightarrow> (content list) io option" where
  "call_generate_image env prompt style size_v steps =
     (case (as_str prompt, as_opt_str style, as_str size_v, as_int steps) of
        (Some p, Some sty, Some sz, Some n) \<Rightarrow>
          Some (bindE (generate env p sty sz n 7 True) (\<lambda>result.
                returnE [ TextContent (''Generated image: '' @ res_image_path result),
                          ImageContent (res_image_data result) ''image/png'' ]))
      | _ \<Rightarrow> None)"

definition call_enhance_prompt :: "env \<Rightarrow> pyval \<Rightarrow> pyval \<Rightarrow> (content list) io option" where
  "call_enhance_prompt env basic_prompt style_preference =
     (case (as_str basic_prompt, as_opt_str style_preference) of
        (Some p, Some sty) \<Rightarrow>
          Some (bindE (enhance_prompt env p sty) (\<lambda>enhanced.
                returnE [ TextContent (''Enhanced prompt: '' @ enhanced) ]))
      | _ \<Rightarrow> None)"

definition call_create_social_post ::
  "env \<Rightarrow> pyval \<Rightarrow> pyval \<Rightarrow> pyval \<Rightarrow> pyval \<Rightarrow> (content list) io option" where
  "call_create_social_post env theme platform tone include_hashtags =
     (case (as_str theme, as_str platform, as_str tone, as_bool include_hashtags) of
        (Some th, Some pl, Some tn, Some ih) \<Rightarrow>
          Some (bindE (create_complete_post env th pl tn ih) (\<lambda>(path, data, caption, platform').
                returnE [ TextContent (''Created post: '' @ caption),
                          ImageContent data ''image/png'' ]))
      | _ \<Rightarrow> None)"

definition call_analyze :: "pyval \<Rightarrow> pyval \<Rightarrow> (content list) io option" where
  "call_analyze time_period metric =
     (case (as_str time_period, as_str metric) of
        (Some tp, Some m) \<Rightarrow>
          Some (returnE [ TextContent (''Performance: '' @ analyze_performance tp m) ])
      | _ \<Rightarrow> None)"

text \<open>A branch whose argument expressions raise never builds its call.\<close>

definition failed :: "exn \<Rightarrow> state \<Rightarrow> ((exn + content list) \<times> state) option" where
  "failed e st = Some (Inl e, st)"

definition run :: "(content list) io option \<Rightarrow> state \<Rightarrow> ((exn + content list) \<times> state) option" where
  "run call st = (case call of None \<Rightarrow> None | Some m \<Rightarrow> Some (m st))"

definition handle_call_tool ::
  "env \<Rightarrow> string \<Rightarrow> (string \<rightharpoonup> pyval) \<Rightarrow> state \<Rightarrow> ((exn + content list) \<times> state) option" where
  "handle_call_tool env name arguments st =
     (if name = ''generate_image'' then
        (case subscript arguments ''prompt'' of
           Inl e \<Rightarrow> failed e st
         | Inr prompt \<Rightarrow>
             run (call_generate_image env prompt
                    (get_or arguments ''style'' PNone)
                    (get_or arguments ''size'' (PStr ''1024x1024''))
                    (get_or arguments ''steps'' (PInt 30))) st)
      else if name = ''enhance_prompt'' then
        (case subscript arguments ''basic_prompt'' of
           Inl e \<Rightarrow> failed e st
         | Inr basic_prompt \<Rightarrow>
             run (call_enhance_prompt env basic_prompt
                    (get_or arguments ''style_preference'' PNone)) st)
      else if name = ''create_social_post'' then
        (case subscript arguments ''theme'' of
           Inl e \<Rightarrow> failed e st
         | Inr theme \<Rightarrow>
             (case subscript arguments ''platform'' of
                Inl e \<Rightarrow> failed e st
              | Inr platform \<Rightarrow>
                  run (call_create_social_post env theme platform
                         (get_or arguments ''tone'' (PStr ''professional''))
                         (get_or arguments ''include_hashtags'' (PBool True))) st))
      else if name = ''schedule_content'' then
        (case subscript arguments ''content_id'' of
           Inl e \<Rightarrow> failed e st
         | Inr content_id \<Rightarrow>
             (case subscript arguments ''schedule_time'' of
                Inl e \<Rightarrow> failed e st
              | Inr schedule_time \<Rightarrow>
                  (case subscript arguments ''platforms'' of
                     Inl e \<Rightarrow> failed e st
                   | Inr platforms \<Rightarrow>
                       Some (bindE (extern (EvSchedule content_id schedule_time platforms)
                                      (\<lambda>h. scheduler_schedule env h content_id schedule_time platforms))
                               (\<lambda>result. returnE [ TextContent (''Scheduled: '' @ result) ]) st))))
      else if name = ''get_content_calendar'' then
        Some (bindE (extern (EvGetCalendar (get_or arguments ''date_range'' (PStr ''this_week'')))
                       (\<lambda>h. scheduler_get_calendar env h
                               (get_or arguments ''date_range'' (PStr ''this_week''))))
                (\<lambda>calendar. returnE [ TextContent (''Calendar: '' @ calendar) ]) st)
      else if name = ''brand_assets'' then
        (case subscript arguments ''image_path'' of
           Inl e \<Rightarrow> failed e st
         | Inr image_path \<Rightarrow>
             Some (bindE (extern (EvApplyBranding image_path
                                    (get_or arguments ''template'' (PStr ''minimal''))
                                    (get_or arguments ''add_logo'' (PBool True)))
                            (\<lambda>h. apply_branding env h image_path
                                    (get_or arguments ''template'' (PStr ''minimal''))
                                    (get_or arguments ''add_logo'' (PBool True))))
                     (\<lambda>branded. returnE [ TextContent (''Branded image: '' @ branded) ]) st))
      else if name = ''analyze_content_performance'' then
        run (call_analyze (get_or arguments ''time_period'' (PStr ''week''))
                          (get_or arguments ''metric'' (PStr ''engagement''))) st
      else failed (ValueError (UnknownTool name)) st)"

section \<open>Observations on a run\<close>

text \<open>What a test double would count: fetches of the model, calls of the pipeline,
  clearings of the device cache.\<close>

fun is_load :: "event \<Rightarrow> bool" where
  "is_load (EvFromPretrained _) = True"
| "is_load _ = False"

fun is_run :: "event \<Rightarrow> bool" where
  "is_run (EvPipelineCall _ _ _ _ _ _) = True"
| "is_run _ = False"

definition loads :: "state \<Rightarrow> nat" where
  "loads st = length (filter is_load (trace st))"

definition runs :: "state \<Rightarrow> nat" where
  "runs st = length (filter is_run (trace st))"

definition clears :: "state \<Rightarrow> nat" where
  "clears st = count_list (trace st) EvEmptyCache"

text \<open>An action keeps an observation when no run of it changes the observed value.\<close>

definition keeps :: "(state \<Rightarrow> 'b) \<Rightarrow> 'a io \<Rightarrow> bool" where
  "keeps f m = (\<forall>st. f (snd (m st)) = f st)"

text \<open>The number a string of decimal digits denotes, continuing from \<open>acc\<close>.\<close>

definition digits_value :: "nat \<Rightarrow> string \<Rightarrow> nat" where
  "digits_value acc ds = foldl (\<lambda>a c. 10 * a + digit_val c) acc ds"

subsection \<open>A test double\<close>

text \<open>An environment for concrete runs: the model loads, the text service is down, the
  clock advances with every external call, and inference fails with the out-of-memory
  error on the prompt \<open>oom\<close> and with another error on the prompt \<open>bad\<close>.\<close>

definition demo_env :: "bool \<Rightarrow> env" where
  "demo_env cuda =
     \<lparr> cfg = default_settings,
       cuda_is_available = cuda,
       mps_is_available = False,
       from_pretrained = (\<lambda>h path. Inr 1),
       enable_model_cpu_offload = (\<lambda>h p. Inr ()),
       enable_vae_slicing = (\<lambda>h p. Inr ()),
       enable_attention_slicing = (\<lambda>h p. Inr ()),
       pipeline_to = (\<lambda>h p d. Inr p),
       ollama_generate = (\<lambda>h m q. Inl (OtherError ''connection refused'')),
       print_line = (\<lambda>h t. Inr ()),
       time_time = (\<lambda>h. real (length h) + 1 / 2),
       float_sub = (\<lambda>a b. a - b),
       autocast = (\<lambda>h d. Inr ()),
       pipeline_call = (\<lambda>h p prompt w ht n g.
          if prompt = ''oom'' then Inl OutOfMemoryError
          else if prompt = ''bad'' then Inl (OtherError ''inference failed'')
          else Inr 7),
       image_save = (\<lambda>h img path. Inr ()),
       image_save_png = (\<lambda>h img. Inr [0x00, 0x00, 0x00, 0x0D, 0x49, 0x48, 0x44, 0x52]),
       caption_generate = (\<lambda>h th pl tn ih. Inr ''caption''),
       scheduler_schedule = (\<lambda>h a b c. Inr ''ok''),
       scheduler_get_calendar = (\<lambda>h a. Inr ''empty''),
       apply_branding = (\<lambda>h a b c. Inr ''branded.png'') \<rparr>"


definition plain_kwargs :: kwargs where
  "plain_kwargs = no_kwargs\<lparr> kw_size := Some ''64x64'', kw_enhance_prompt := Some False \<rparr>"

section \<open>Facts about the sequencing combinators\<close>

lemma keeps_snd: "keeps f m \<Longrightarrow> f (snd (m st)) = f st"
  by (simp add: keeps_def)

lemma keepsD: "keeps f m \<Longrightarrow> m st = (r, st') \<Longrightarrow> f st' = f st"
  by (metis keeps_snd snd_conv)

lemma keeps_returnE: "keeps f (returnE x)"
  by (simp add: keeps_def returnE_def)

lemma keeps_raiseE: "keeps f (raiseE e)"
  by (simp add: keeps_def raiseE_def)

lemma keeps_bindE: "keeps f m \<Longrightarrow> (\<And>x. keeps f (g x)) \<Longrightarrow> keeps f (bindE m g)"
  by (auto simp: keeps_def bindE_def split: prod.splits sum.splits) (metis snd_conv)+

lemma keeps_tryE: "keeps f m \<Longrightarrow> (\<And>e. keeps f (h e)) \<Longrightarrow> keeps f (tryE m h)"
  by (auto simp: keeps_def tryE_def split: prod.splits sum.splits) (metis snd_conv)+

lemma keeps_extern_pipeline: "keeps pipeline (extern ev a)"
  by (simp add: keeps_def extern_def)

lemma keeps_extern_runs: "\<not> is_run ev \<Longrightarrow> keeps runs (extern ev a)"
  by (simp add: keeps_def extern_def runs_def)

lemma keeps_extern_clears: "ev \<noteq> EvEmptyCache \<Longrightarrow> keeps clears (extern ev a)"
  by (simp add: keeps_def extern_def clears_def)

lemma keeps_set_pipeline_runs: "keeps runs (set_pipeline p)"
  by (simp add: keeps_def set_pipeline_def runs_def)

lemma keeps_set_pipeline_clears: "keeps clears (set_pipeline p)"
  by (simp add: keeps_def set_pipeline_def clears_def)

lemma keeps_gets: "keeps f (gets g)"
  by (simp add: keeps_def gets_def)

lemma keeps_liftE: "keeps f (liftE r)"
  by (simp add: keeps_def liftE_def)

lemmas keeps_intros = keeps_gets keeps_liftE
  keeps_returnE keeps_raiseE keeps_bindE keeps_tryE keeps_extern_pipeline
  keeps_extern_runs keeps_extern_clears keeps_set_pipeline_runs keeps_set_pipeline_clears

subsection \<open>load_model\<close>

lemma load_model_noop: "pipeline st \<noteq> None \<Longrightarrow> load_model env st = (Inr (), st)"
  by (simp add: load_model_def returnE_def bindE_def gets_def)

lemma load_model_loaded: "load_model env st = (Inr (), st') \<Longrightarrow> pipeline st' \<noteq> None"
  by (auto simp: load_model_def returnE_def bindE_def extern_def set_pipeline_def gets_def
      split: if_splits prod.splits sum.splits)

lemma load_model_loads:
  "pipeline st = None \<Longrightarrow> load_model env st = (r, st') \<Longrightarrow> loads st' = Suc (loads st)"
  by (auto simp: load_model_def returnE_def bindE_def extern_def set_pipeline_def loads_def gets_def
      split: if_splits prod.splits sum.splits)

lemma keeps_runs_load_model: "keeps runs (load_model env)"
  unfolding load_model_def by (auto intro!: keeps_intros)

lemma keeps_clears_load_model: "keeps clears (load_model env)"
  unfolding load_model_def by (auto intro!: keeps_intros)

subsection \<open>enhance_prompt\<close>




lemma keeps_runs_enhance_prompt: "keeps runs (enhance_prompt env p sty)"
  unfolding enhance_prompt_def enhance_prompt_try_def
  by (auto intro!: keeps_intros split: option.splits pyval.splits)

lemma keeps_clears_enhance_prompt: "keeps clears (enhance_prompt env p sty)"
  unfolding enhance_prompt_def enhance_prompt_try_def
  by (auto intro!: keeps_intros split: option.splits pyval.splits)

lemma keeps_pipeline_enhance_prompt: "keeps pipeline (enhance_prompt env p sty)"
  unfolding enhance_prompt_def enhance_prompt_try_def
  by (auto intro!: keeps_intros split: option.splits pyval.splits)

lemma working_prompt_plain:
  "working_prompt env p sty False st =
     (Inr (case sty of None \<Rightarrow> p | Some s \<Rightarrow> if s = [] then p else p @ '', '' @ s @ '' style''), st)"
  by (simp add: working_prompt_def returnE_def split: option.splits)

lemma keeps_runs_working_prompt: "keeps runs (working_prompt env p sty enh)"
  unfolding working_prompt_def
  by (auto intro!: keeps_runs_enhance_prompt keeps_returnE split: option.splits)

lemma keeps_clears_working_prompt: "keeps clears (working_prompt env p sty enh)"
  unfolding working_prompt_def
  by (auto intro!: keeps_clears_enhance_prompt keeps_returnE split: option.splits)

lemma keeps_pipeline_working_prompt: "keeps pipeline (working_prompt env p sty enh)"
  unfolding working_prompt_def
  by (auto intro!: keeps_pipeline_enhance_prompt keeps_returnE split: option.splits)

subsection \<open>generate\<close>

lemma keeps_pipeline_generate_try: "keeps pipeline (generate_try env t p w h n g)"
  unfolding generate_try_def run_pipeline_def clock_def
  by (auto intro!: keeps_intros split: option.splits)

lemma keeps_clears_generate_try: "keeps clears (generate_try env t p w h n g)"
  unfolding generate_try_def run_pipeline_def clock_def
  by (auto intro!: keeps_intros split: option.splits)

lemma keeps_pipeline_generate_except: "keeps pipeline (generate_except e)"
  unfolding generate_except_def empty_cache_def
  by (auto intro!: keeps_intros)

lemma generate_except_raises: "generate_except e st = (r, st') \<Longrightarrow> r = Inl e"
  by (auto simp: generate_except_def empty_cache_def bindE_def extern_def raiseE_def
      split: if_splits)

lemma keeps_pipeline_after_load:
  "keeps pipeline
     (bindE (working_prompt env p sty enh) (\<lambda>prompt'.
      bindE (parse_size env sz) (\<lambda>(width, height).
      bindE (clock env) (\<lambda>start_time.
      tryE (generate_try env start_time prompt' width height n g) generate_except))))"
  unfolding parse_size_def clock_def
  by (auto intro!: keeps_bindE keeps_tryE keeps_pipeline_working_prompt keeps_liftE
      keeps_extern_pipeline keeps_pipeline_generate_try keeps_pipeline_generate_except)

lemma generate_pipeline:
  "pipeline (snd (generate env p sty sz n g enh st)) = pipeline (snd (load_model env st))"
proof (cases "load_model env st")
  case (Pair r s1)
  show ?thesis
  proof (cases r)
    case (Inl e)
    with Pair show ?thesis by (simp add: generate_def bindE_def)
  next
    case (Inr u)
    with Pair show ?thesis
      using keeps_snd [OF keeps_pipeline_after_load, of env p sty enh sz n g s1]
      by (simp add: generate_def bindE_def)
  qed
qed

lemma generate_keeps_loaded:
  "pipeline st \<noteq> None \<Longrightarrow> pipeline (snd (generate env p sty sz n g enh st)) = pipeline st"
  by (simp add: generate_pipeline load_model_noop)

lemma generate_loaded_after:
  "pipeline (snd (load_model env st)) \<noteq> None \<Longrightarrow>
   pipeline (snd (generate env p sty sz n g enh st)) \<noteq> None"
  by (simp add: generate_pipeline)

lemma generate_kw_keeps_loaded:
  "pipeline st \<noteq> None \<Longrightarrow> pipeline (snd (generate_kw env p kw st)) = pipeline st"
  by (simp add: generate_kw_def generate_keeps_loaded)

lemma batch_loop_keeps_loaded:
  "pipeline st \<noteq> None \<Longrightarrow>
   pipeline (snd (generate_batch_loop env kw ps acc st)) = pipeline st"
proof (induction ps arbitrary: acc st)
  case Nil
  then show ?case by (simp add: returnE_def)
next
  case (Cons p ps)
  obtain r s1 where g: "generate_kw env p kw st = (r, s1)" by (cases "generate_kw env p kw st")
  have p1: "pipeline s1 = pipeline st"
    using generate_kw_keeps_loaded [OF Cons.prems, of env p kw] g by simp
  show ?case
  proof (cases r)
    case (Inl e)
    with g p1 show ?thesis by (simp add: bindE_def)
  next
    case (Inr x)
    with g p1 Cons.prems Cons.IH show ?thesis
      by (simp add: bindE_def empty_cache_def extern_def returnE_def)
  qed
qed

lemma unload_model_unloaded: "pipeline (snd (unload_model env st)) = None"
  by (simp add: unload_model_def bindE_def gets_def set_pipeline_def empty_cache_def extern_def
      returnE_def)

section \<open>Facts about the size parser\<close>

lemma digit_char_digit: "d < 10 \<Longrightarrow> is_digit (digit_char d)"
  by (simp add: is_digit_def digit_char_def)

lemma digit_val_char: "d < 10 \<Longrightarrow> digit_val (digit_char d) = d"
  by (simp add: digit_val_def digit_char_def)

lemma str_nat_digits: "c \<in> set (str_nat n) \<Longrightarrow> is_digit c"
proof (induction n rule: str_nat.induct)
  case (1 n)
  show ?case
  proof (cases "n < 10")
    case True
    with "1.prems" show ?thesis
      by (simp add: str_nat.simps [of n] digit_char_digit)
  next
    case False
    with "1.prems" "1.IH" show ?thesis
      by (auto simp: str_nat.simps [of n] digit_char_digit)
  qed
qed

lemma str_nat_nonempty: "str_nat n \<noteq> []"
  by (subst str_nat.simps) simp

lemma int_digits_all_digits:
  "\<forall>c \<in> set ds. is_digit c \<Longrightarrow> int_digits acc ds = Some (digits_value acc ds)"
  by (induction acc ds rule: int_digits.induct) (auto simp: digits_value_def)

lemma int_body_all_digits:
  "ds \<noteq> [] \<Longrightarrow> \<forall>c \<in> set ds. is_digit c \<Longrightarrow> int_body ds = Some (digits_value 0 ds)"
  by (cases ds) (auto simp: int_body_def int_digits_all_digits digits_value_def)

lemma digits_value_str_nat: "digits_value 0 (str_nat n) = n"
proof (induction n rule: str_nat.induct)
  case (1 n)
  show ?case
  proof (cases "n < 10")
    case True
    then show ?thesis
      by (simp add: str_nat.simps [of n] digits_value_def digit_val_char)
  next
    case False
    with "1.IH" show ?thesis
      by (simp add: str_nat.simps [of n] digits_value_def digit_val_char)
  qed
qed

lemma int_body_str_nat: "int_body (str_nat n) = Some n"
  using int_body_all_digits [of "str_nat n"] str_nat_digits str_nat_nonempty
  by (simp add: digits_value_str_nat)

lemma digit_not_ascii_space: "is_digit c \<Longrightarrow> \<not> is_ascii_space c"
  by (auto simp: is_digit_def is_ascii_space_def)

lemma digit_in_literal: "is_digit c \<Longrightarrow> in_literal c"
  by (simp add: in_literal_def)

lemma digit_keeps: "is_digit c \<Longrightarrow> c \<noteq> CHR 0x85 \<and> c \<noteq> CHR 0xA0"
  by (auto simp: is_digit_def)

lemma int_strip_id:
  "s \<noteq> [] \<Longrightarrow> \<not> is_ascii_space (hd s) \<Longrightarrow> \<not> is_ascii_space (last s) \<Longrightarrow> int_strip s = s"
proof -
  assume a: "s \<noteq> []" "\<not> is_ascii_space (hd s)" "\<not> is_ascii_space (last s)"
  then have "dropWhile is_ascii_space s = s" by (cases s) auto
  moreover from a have "dropWhile is_ascii_space (rev s) = rev s"
    by (cases "rev s") (auto simp: last_rev [symmetric] hd_rev)
  ultimately show ?thesis by (simp add: int_strip_def)
qed

lemma hd_str_nat_digit: "is_digit (hd (str_nat n))"
  by (rule str_nat_digits [of _ n]) (simp add: str_nat_nonempty)

lemma last_str_nat_digit: "is_digit (last (str_nat n))"
  by (rule str_nat_digits [of _ n]) (simp add: str_nat_nonempty)

lemma spaces_to_ascii_str_nat: "spaces_to_ascii (str_nat n) = str_nat n"
  unfolding spaces_to_ascii_def
  by (rule map_idI) (auto dest!: str_nat_digits digit_keeps)

lemma int_strip_str_nat: "int_strip (str_nat n) = str_nat n"
  by (rule int_strip_id)
     (simp_all add: str_nat_nonempty digit_not_ascii_space hd_str_nat_digit last_str_nat_digit)

lemma int_strip_minus: "int_strip (CHR ''-'' # str_nat n) = CHR ''-'' # str_nat n"
proof (rule int_strip_id)
  show "\<not> is_ascii_space (hd (CHR ''-'' # str_nat n))"
    by (simp add: is_ascii_space_def)
  show "\<not> is_ascii_space (last (CHR ''-'' # str_nat n))"
    by (simp add: str_nat_nonempty digit_not_ascii_space last_str_nat_digit)
qed simp

lemma takeWhile_str_nat: "takeWhile in_literal (str_nat n) = str_nat n"
  by (simp add: takeWhile_eq_all_conv str_nat_digits digit_in_literal)

lemma dropWhile_str_nat: "dropWhile in_literal (str_nat n) = []"
  by (simp add: dropWhile_eq_Nil_conv str_nat_digits digit_in_literal)

lemma filter_str_nat: "filter is_digit (str_nat n) = str_nat n"
  by (simp add: filter_id_conv str_nat_digits)

text \<open>Reading back what \<open>str\<close> wrote: the number itself, unless it has more digits than
  the interpreter converts.\<close>

lemma int_literal_str_nat:
  "int_literal s (str_nat n) =
     (if int_max_str_digits < length (str_nat n)
      then Inl (ValueError (TooManyDigits (length (str_nat n))))
      else Inr n)"
  by (simp add: int_literal_def takeWhile_str_nat dropWhile_str_nat filter_str_nat
      int_body_str_nat)

lemma py_int_py_str:
  "py_int (py_str i) =
     (if int_max_str_digits < length (str_nat (nat \<bar>i\<bar>))
      then Inl (ValueError (TooManyDigits (length (str_nat (nat \<bar>i\<bar>)))))
      else Inr i)"
proof (cases "i < 0")
  case True
  have "spaces_to_ascii (CHR ''-'' # str_nat (nat (- i))) = CHR ''-'' # str_nat (nat (- i))"
    using spaces_to_ascii_str_nat [of "nat (- i)"] by (simp add: spaces_to_ascii_def)
  moreover from True have "nat \<bar>i\<bar> = nat (- i)" by simp
  ultimately show ?thesis using True
    by (simp add: py_int_def py_str_def int_strip_minus int_literal_str_nat)
next
  case False
  obtain c cs where s: "str_nat (nat i) = c # cs"
    using str_nat_nonempty [of "nat i"] by (cases "str_nat (nat i)") auto
  have "is_digit c" using hd_str_nat_digit [of "nat i"] s by simp
  then have c: "c \<noteq> CHR ''-''" "c \<noteq> CHR ''+''" by (auto simp: is_digit_def)
  have st: "int_strip (spaces_to_ascii (str_nat (nat i))) = c # cs"
    using s spaces_to_ascii_str_nat [of "nat i"] int_strip_str_nat [of "nat i"] by simp
  from False have a: "nat \<bar>i\<bar> = nat i" by simp
  have "int_literal (str_nat (nat i)) (c # cs) =
     (if int_max_str_digits < length (str_nat (nat i))
      then Inl (ValueError (TooManyDigits (length (str_nat (nat i)))))
      else Inr (nat i))"
    using int_literal_str_nat [of "str_nat (nat i)" "nat i"] s by simp
  with False c st a show ?thesis
    by (simp add: py_int_def py_str_def)
qed


lemma py_split_no_sep: "sep \<notin> set s \<Longrightarrow> py_split sep s = [s]"
  by (induction s) auto

lemma py_split_first: "sep \<notin> set a \<Longrightarrow> py_split sep (a @ sep # b) = a # py_split sep b"
  by (induction a) auto

lemma x_not_in_py_str: "CHR ''x'' \<notin> set (py_str i)"
proof
  assume "CHR ''x'' \<in> set (py_str i)"
  then have "is_digit CHR ''x''"
    by (auto simp: py_str_def dest: str_nat_digits split: if_splits)
  then show False by (simp add: is_digit_def)
qed

lemma py_str_nonempty: "py_str i \<noteq> []"
  by (simp add: py_str_def str_nat_nonempty)

lemma unpack_py_str:
  "get_image_size_tuple c (Some (py_str w @ ''x'' @ py_str h)) =
     (case py_int (py_str w) of
        Inl e \<Rightarrow> Inl e
      | Inr w' \<Rightarrow> (case py_int (py_str h) of Inl e \<Rightarrow> Inl e | Inr h' \<Rightarrow> Inr (w', h')))"
  by (simp add: get_image_size_tuple_def py_str_nonempty py_split_first py_split_no_sep
      x_not_in_py_str unpack_two_ints_def split: sum.splits)


lemma get_image_size_tuple_py_str:
  "length (str_nat (nat \<bar>w\<bar>)) \<le> int_max_str_digits \<Longrightarrow>
   length (str_nat (nat \<bar>h\<bar>)) \<le> int_max_str_digits \<Longrightarrow>
   get_image_size_tuple c (Some (py_str w @ ''x'' @ py_str h)) = Inr (w, h)"
  using unpack_py_str [of c w h] by (simp add: py_int_py_str)

lemma int_literal_error: "int_literal s b = Inl e \<Longrightarrow> \<exists>v. e = ValueError v"
  by (auto simp: int_literal_def split: option.splits if_splits)

lemma py_int_error: "py_int s = Inl e \<Longrightarrow> \<exists>v. e = ValueError v"
  by (auto simp: py_int_def split: list.splits if_splits sum.splits dest: int_literal_error)

lemma unpack_two_ints_error: "unpack_two_ints parts = Inl e \<Longrightarrow> \<exists>v. e = ValueError v"
  by (auto simp: unpack_two_ints_def split: list.splits sum.splits dest: py_int_error)

lemma get_image_size_tuple_error:
  "get_image_size_tuple c s = Inl e \<Longrightarrow> \<exists>v. e = ValueError v"
  by (auto simp: get_image_size_tuple_def Let_def dest: unpack_two_ints_error)

section \<open>Facts about \<open>generate\<close> and the batch loop\<close>

lemma generate_success:
  assumes "generate env p sty sz n g enh st = (Inr r, st')"
  shows "\<exists>s1 p' s2 w h.
           load_model env st = (Inr (), s1) \<and>
           working_prompt env p sty enh s1 = (Inr p', s2) \<and>
           get_image_size_tuple (cfg env) (Some sz) = Inr (w, h) \<and>
           generate_try env (time_time env (trace s2)) p' w h n g
             (s2\<lparr>trace := trace s2 @ [EvTimeTime]\<rparr>) = (Inr r, st')"
  using assms
  by (auto simp: generate_def bindE_def parse_size_def liftE_def clock_def extern_def tryE_def
      split: prod.splits sum.splits dest: generate_except_raises)


lemma path_join_suffix: "suffix name (path_join dir name)"
  by (auto simp: path_join_def suffix_def)



lemma generate_ok_clears:
  assumes "generate env p sty sz n g enh st = (Inr r, st')"
  shows "clears st' = clears st"
proof -
  from generate_success [OF assms] obtain s1 p' s2 w h where
    l: "load_model env st = (Inr (), s1)" and
    wp: "working_prompt env p sty enh s1 = (Inr p', s2)" and
    t: "generate_try env (time_time env (trace s2)) p' w h n g
             (s2\<lparr>trace := trace s2 @ [EvTimeTime]\<rparr>) = (Inr r, st')"
    by blast
  have "clears s1 = clears st" using keepsD [OF keeps_clears_load_model l] .
  moreover have "clears s2 = clears s1" using keepsD [OF keeps_clears_working_prompt wp] .
  moreover have "clears st' = clears (s2\<lparr>trace := trace s2 @ [EvTimeTime]\<rparr>)"
    using keepsD [OF keeps_clears_generate_try t] .
  ultimately show ?thesis by (simp add: clears_def)
qed

lemma generate_rejected:
  assumes "get_image_size_tuple (cfg env) (Some sz) = Inl e"
  shows "(\<exists>x. fst (generate env p sty sz n g enh st) = Inl x) \<and>
         (load_model env st = (Inr (), s1) \<and> working_prompt env p sty enh s1 = (Inr p', s2) \<longrightarrow>
            generate env p sty sz n g enh st = (Inl e, s2)) \<and>
         runs (snd (generate env p sty sz n g enh st)) = runs st"
proof -
  obtain r1 t1 where l: "load_model env st = (r1, t1)" by (cases "load_model env st")
  have r1: "runs t1 = runs st" using keepsD [OF keeps_runs_load_model l] .
  show ?thesis
  proof (cases r1)
    case (Inl x)
    with l r1 show ?thesis by (simp add: generate_def bindE_def)
  next
    case (Inr u)
    obtain r2 t2 where wp: "working_prompt env p sty enh t1 = (r2, t2)"
      by (cases "working_prompt env p sty enh t1")
    have r2: "runs t2 = runs t1" using keepsD [OF keeps_runs_working_prompt wp] .
    show ?thesis
    proof (cases r2)
      case (Inl y)
      with Inr l wp r1 r2 show ?thesis by (auto simp: generate_def bindE_def)
    next
      case (Inr q)
      with \<open>r1 = Inr u\<close> l wp r1 r2 assms show ?thesis
        by (simp add: generate_def bindE_def parse_size_def liftE_def)
    qed
  qed
qed

lemma bindE_assoc: "bindE (bindE m f) k = bindE m (\<lambda>x. bindE (f x) k)"
  by (rule ext) (simp add: bindE_def split: prod.splits sum.splits)

lemma batch_loop_append:
  "generate_batch_loop env kw (ps1 @ ps2) acc st =
   bindE (generate_batch_loop env kw ps1 acc) (generate_batch_loop env kw ps2) st"
proof (induction ps1 arbitrary: acc st)
  case Nil
  show ?case by (simp add: bindE_def returnE_def)
next
  case (Cons p ps1)
  show ?case
    by (simp add: Cons.IH bindE_def split: prod.splits sum.splits)
qed

lemma batch_loop_length:
  "generate_batch_loop env kw ps acc st = (Inr rs, st') \<Longrightarrow> length rs = length acc + length ps"
proof (induction ps arbitrary: acc st)
  case Nil
  then show ?case by (simp add: returnE_def)
next
  case (Cons p ps)
  from Cons.prems obtain r s1 s2 where
    "generate_batch_loop env kw ps (acc @ [r]) s2 = (Inr rs, st')"
    by (auto simp: bindE_def split: prod.splits sum.splits)
  from Cons.IH [OF this] show ?case by simp
qed

lemma batch_loop_clears:
  "generate_batch_loop env kw ps acc st = (Inr rs, st') \<Longrightarrow>
   clears st' = clears st + (if cuda_is_available env then length ps else 0)"
proof (induction ps arbitrary: acc st)
  case Nil
  then show ?case by (simp add: returnE_def)
next
  case (Cons p ps)
  from Cons.prems obtain r s1 s2 where
    g: "generate_kw env p kw st = (Inr r, s1)" and
    c: "(if cuda_is_available env then empty_cache else returnE ()) s1 = (Inr (), s2)" and
    rest: "generate_batch_loop env kw ps (acc @ [r]) s2 = (Inr rs, st')"
    by (auto simp: bindE_def split: prod.splits sum.splits)
  have "clears s1 = clears st" using g generate_ok_clears by (simp add: generate_kw_def)
  moreover have "clears s2 = clears s1 + (if cuda_is_available env then 1 else 0)"
    using c by (auto simp: empty_cache_def extern_def returnE_def clears_def split: if_splits)
  ultimately show ?case using Cons.IH [OF rest] by simp
qed

text \<open>The test double loads without error.\<close>

lemma demo_load:
  "load_model (demo_env c) (init (demo_env c)) =
     (Inr (), \<lparr> pipeline = Some 1, device = get_device (demo_env c),
                trace = [EvFromPretrained ''stabilityai/stable-diffusion-3-medium-diffusers'',
                         EvEnableModelCpuOffload 1, EvEnableVaeSlicing 1,
                         EvEnableAttentionSlicing 1, EvPipelineTo 1 (get_device (demo_env c))] \<rparr>)"
  by (simp add: load_model_def init_def demo_env_def default_settings_def bindE_def gets_def
      extern_def set_pipeline_def returnE_def)

section \<open>Properties of the specification\<close>

text \<open>
  C5.  \<open>load_model\<close> is idempotent.  Called on an object that already holds a pipeline it
  returns at once and changes nothing.  Called on an object without a pipeline, if it
  returns normally then the object holds a pipeline, a second call right after it is a
  no-op, and the two calls together have fetched the model exactly once.
\<close>

theorem load_model_idempotent:
  "(pipeline st \<noteq> None \<longrightarrow> load_model env st = (Inr (), st)) \<and>
   (pipeline st = None \<and> load_model env st = (Inr (), st1) \<longrightarrow>
      pipeline st1 \<noteq> None \<and>
      load_model env st1 = (Inr (), st1) \<and>
      bindE (load_model env) (\<lambda>_. load_model env) st = (Inr (), st1) \<and>
      loads st1 = loads st + 1)"
proof (intro conjI impI)
  assume "pipeline st \<noteq> None"
  then show "load_model env st = (Inr (), st)" by (rule load_model_noop)
next
  assume a: "pipeline st = None \<and> load_model env st = (Inr (), st1)"
  then show l: "pipeline st1 \<noteq> None" using load_model_loaded by blast
  then show n: "load_model env st1 = (Inr (), st1)" by (rule load_model_noop)
  from a n show "bindE (load_model env) (\<lambda>_. load_model env) st = (Inr (), st1)"
    by (simp add: bindE_def)
  from a show "loads st1 = loads st + 1" using load_model_loads by fastforce
qed

theorem load_model_idempotent_witness:
  "pipeline (init (demo_env True)) = None \<and>
   fst (load_model (demo_env True) (init (demo_env True))) = Inr () \<and>
   loads (init (demo_env True)) = 0 \<and>
   loads (snd (load_model (demo_env True) (init (demo_env True)))) = 1 \<and>
   load_model (demo_env True) (snd (load_model (demo_env True) (init (demo_env True)))) =
     (Inr (), snd (load_model (demo_env True) (init (demo_env True))))"
proof -
  have h1: "pipeline (init (demo_env True)) = None" by (simp add: init_def)
  have h2: "fst (load_model (demo_env True) (init (demo_env True))) = Inr ()" by code_simp
  have h3: "loads (init (demo_env True)) = 0" by (simp add: init_def loads_def)
  from h2 have h4: "load_model (demo_env True) (init (demo_env True)) =
      (Inr (), snd (load_model (demo_env True) (init (demo_env True))))"
    by (simp add: prod_eq_iff)
  from load_model_idempotent [of "init (demo_env True)" "demo_env True"
      "snd (load_model (demo_env True) (init (demo_env True)))"] h1 h2 h3 h4
  show ?thesis by simp
qed






text \<open>
  C10.  \<open>generate\<close> leaves \<open>self.pipeline\<close> exactly as its call of \<open>load_model\<close> left it,
  whatever happens afterwards, so once the model has been loaded the object stays loaded
  even when the call fails (the out-of-memory handler only empties caches).  On a loaded
  object \<open>generate\<close>, \<open>generate_batch\<close>, \<open>load_model\<close> and \<open>enhance_prompt\<close> keep the
  pipeline; \<open>unload_model\<close> is the operation that sets it to \<open>None\<close>.
\<close>

theorem pipeline_retained:
  "pipeline (snd (generate env p sty sz n g enh st)) = pipeline (snd (load_model env st)) \<and>
   (pipeline (snd (load_model env st)) \<noteq> None \<longrightarrow>
      pipeline (snd (generate env p sty sz n g enh st)) \<noteq> None) \<and>
   (pipeline st \<noteq> None \<longrightarrow>
      pipeline (snd (generate env p sty sz n g enh st)) = pipeline st \<and>
      pipeline (snd (generate_batch env ps kw st)) = pipeline st \<and>
      pipeline (snd (load_model env st)) = pipeline st \<and>
      pipeline (snd (enhance_prompt env p sty st)) = pipeline st) \<and>
   pipeline (snd (unload_model env st)) = None"
  by (simp add: generate_pipeline load_model_noop generate_batch_def batch_loop_keeps_loaded
      keeps_snd [OF keeps_pipeline_enhance_prompt] unload_model_unloaded)

theorem pipeline_retained_witness:
  "pipeline (snd (load_model (demo_env True) (init (demo_env True)))) \<noteq> None \<and>
   fst (generate (demo_env True) ''oom'' None ''64x64'' 20 7 False (init (demo_env True))) =
     Inl OutOfMemoryError \<and>
   pipeline (snd (generate (demo_env True) ''oom'' None ''64x64'' 20 7 False
                    (init (demo_env True)))) = Some 1 \<and>
   pipeline (snd (unload_model (demo_env True)
     (snd (generate (demo_env True) ''oom'' None ''64x64'' 20 7 False
             (init (demo_env True)))))) = None"
proof -
  have h: "pipeline (snd (load_model (demo_env True) (init (demo_env True)))) = Some 1"
    by (simp add: demo_load)
  have f: "fst (generate (demo_env True) ''oom'' None ''64x64'' 20 7 False
                  (init (demo_env True))) = Inl OutOfMemoryError"
    by code_simp
  from pipeline_retained [of "demo_env True" "''oom''" None "''64x64''" 20 7 False
      "init (demo_env True)"] h f
    pipeline_retained [of "demo_env True" "''oom''" None "''64x64''" 20 7 False
      "snd (generate (demo_env True) ''oom'' None ''64x64'' 20 7 False (init (demo_env True)))"]
  show ?thesis by simp
qed

text \<open>
  C1.  As stated the claim fails twice.  The size is parsed only after \<open>load_model\<close> (and
  after the working prompt is built), so with a malformed size the model is still fetched;
  and the parser accepts any two integer literals, so \<open>0x0\<close> is not rejected and reaches
  the pipeline.
\<close>

theorem generate_malformed_size_counterexample:
  "fst (generate (demo_env True) ''a cat'' None ''abc'' 30 7 False (init (demo_env True))) =
     Inl (ValueError (InvalidLiteral ''abc'')) \<and>
   loads (init (demo_env True)) = 0 \<and>
   loads (snd (generate (demo_env True) ''a cat'' None ''abc'' 30 7 False
                 (init (demo_env True)))) = 1 \<and>
   get_image_size_tuple default_settings (Some ''0x0'') = Inr (0, 0) \<and>
   runs (snd (generate (demo_env True) ''a cat'' None ''0x0'' 30 7 False
                (init (demo_env True)))) = 1 \<and>
   map_sum id res_size
     (fst (generate (demo_env True) ''a cat'' None ''0x0'' 30 7 False (init (demo_env True)))) =
     Inr ''0x0''"
  by code_simp

text \<open>
  C1, amended.  For every size string the parser rejects, the exception is a
  \<open>ValueError\<close>; \<open>generate\<close> raises; when \<open>load_model\<close> and the step that builds the working
  prompt have returned, it raises exactly that \<open>ValueError\<close>, in the state those two steps
  left; and no pipeline call is made.
\<close>

theorem generate_rejected_size:
  assumes "get_image_size_tuple (cfg env) (Some sz) = Inl e"
  shows "(\<exists>v. e = ValueError v) \<and>
         (\<exists>x. fst (generate env p sty sz n g enh st) = Inl x) \<and>
         (load_model env st = (Inr (), s1) \<and> working_prompt env p sty enh s1 = (Inr p', s2) \<longrightarrow>
            generate env p sty sz n g enh st = (Inl e, s2)) \<and>
         runs (snd (generate env p sty sz n g enh st)) = runs st"
  using generate_rejected [OF assms, of p sty n g enh st s1 p' s2]
    get_image_size_tuple_error [OF assms]
  by simp

theorem generate_rejected_size_witness:
  "get_image_size_tuple (cfg (demo_env True)) (Some (CHR 0x1C # ''5x6'')) =
     Inl (ValueError (InvalidLiteral (CHR 0x1C # ''5''))) \<and>
   fst (load_model (demo_env True) (init (demo_env True))) = Inr () \<and>
   fst (working_prompt (demo_env True) ''a cat'' None True
          (snd (load_model (demo_env True) (init (demo_env True))))) =
     Inr ''a cat, high quality, detailed, professional photography'' \<and>
   generate (demo_env True) ''a cat'' None (CHR 0x1C # ''5x6'') 30 7 True (init (demo_env True)) =
     (Inl (ValueError (InvalidLiteral (CHR 0x1C # ''5''))),
      snd (working_prompt (demo_env True) ''a cat'' None True
             (snd (load_model (demo_env True) (init (demo_env True)))))) \<and>
   runs (snd (generate (demo_env True) ''a cat'' None (CHR 0x1C # ''5x6'') 30 7 True
                (init (demo_env True)))) = 0"
proof -
  let ?E = "demo_env True"
  let ?L = "load_model ?E (init ?E)"
  let ?W = "working_prompt ?E ''a cat'' None True (snd ?L)"
  have h: "get_image_size_tuple (cfg ?E) (Some (CHR 0x1C # ''5x6'')) =
      Inl (ValueError (InvalidLiteral (CHR 0x1C # ''5'')))"
    by code_simp
  have l: "fst ?L = Inr ()" by (simp add: demo_load)
  then have l': "?L = (Inr (), snd ?L)" by (simp add: prod_eq_iff)
  have w: "fst ?W = Inr ''a cat, high quality, detailed, professional photography''"
    by code_simp
  then have w': "?W = (Inr ''a cat, high quality, detailed, professional photography'', snd ?W)"
    by (simp add: prod_eq_iff)
  have r: "runs (init ?E) = 0" by (simp add: runs_def init_def)
  note T = generate_rejected_size [OF h, of "''a cat''" None 30 7 True "init ?E" "snd ?L"
      "''a cat, high quality, detailed, professional photography''" "snd ?W"]
  from T l' w' have g:
    "generate ?E ''a cat'' None (CHR 0x1C # ''5x6'') 30 7 True (init ?E) =
       (Inl (ValueError (InvalidLiteral (CHR 0x1C # ''5''))), snd ?W)"
    by blast
  from T r have rn:
    "runs (snd (generate ?E ''a cat'' None (CHR 0x1C # ''5x6'') 30 7 True (init ?E))) = 0"
    by simp
  from h l w g rn show ?thesis by (intro conjI)
qed

text \<open>
  C2.  As stated the claim fails: an item that fails is followed by no clearing of the
  cache (the exception leaves the loop at once), and without CUDA nothing is cleared at
  all, also after an item that succeeded.
\<close>

theorem generate_batch_clears_counterexample:
  "fst (generate_batch (demo_env True) [''bad''] plain_kwargs (init (demo_env True))) =
     Inl (OtherError ''inference failed'') \<and>
   clears (snd (generate_batch (demo_env True) [''bad''] plain_kwargs (init (demo_env True)))) = 0 \<and>
   map_sum id length
     (fst (generate_batch (demo_env False) [''a''] plain_kwargs (init (demo_env False)))) = Inr 1 \<and>
   clears (snd (generate_batch (demo_env False) [''a''] plain_kwargs (init (demo_env False)))) = 0"
  by code_simp

text \<open>
  C2, amended.  When every item of the batch succeeds, there is one result per item and,
  where CUDA is available, the cache has been cleared exactly once per item; where it is
  not, the batch clears nothing.  When the items before some position have succeeded and
  \<open>generate\<close> fails on the item at that position, the cache has been cleared once for
  each of the earlier items (where CUDA is available) and the batch ends in the state that
  failing call left: no clearing by \<open>generate_batch\<close> follows a failed item.
\<close>

theorem generate_batch_clears:
  "(generate_batch env ps kw st = (Inr rs, st') \<longrightarrow>
      length rs = length ps \<and>
      clears st' = clears st + (if cuda_is_available env then length ps else 0)) \<and>
   (generate_batch env ps1 kw st = (Inr rs1, s1) \<and> generate_kw env p kw s1 = (Inl e, s2) \<longrightarrow>
      clears s1 = clears st + (if cuda_is_available env then length ps1 else 0) \<and>
      snd (generate_batch env (ps1 @ p # ps2) kw st) = s2)"
proof (intro conjI impI)
  assume a: "generate_batch env ps kw st = (Inr rs, st')"
  then show "length rs = length ps"
    using batch_loop_length [of env kw ps "[]" st rs st'] by (simp add: generate_batch_def)
  from a show "clears st' = clears st + (if cuda_is_available env then length ps else 0)"
    using batch_loop_clears [of env kw ps "[]" st rs st'] by (simp add: generate_batch_def)
next
  assume b: "generate_batch env ps1 kw st = (Inr rs1, s1) \<and> generate_kw env p kw s1 = (Inl e, s2)"
  then show "clears s1 = clears st + (if cuda_is_available env then length ps1 else 0)"
    using batch_loop_clears [of env kw ps1 "[]" st rs1 s1] by (simp add: generate_batch_def)
  from b show "snd (generate_batch env (ps1 @ p # ps2) kw st) = s2"
    by (simp add: generate_batch_def batch_loop_append bindE_def)
qed

theorem generate_batch_clears_witness:
  "map_sum id length
     (fst (generate_batch (demo_env True) [''a'', ''b''] plain_kwargs (init (demo_env True)))) =
     Inr 2 \<and>
   clears (snd (generate_batch (demo_env True) [''a'', ''b''] plain_kwargs
                  (init (demo_env True)))) = 2 \<and>
   fst (generate_kw (demo_env True) ''bad'' plain_kwargs
          (snd (generate_batch (demo_env True) [''a'', ''b''] plain_kwargs
                  (init (demo_env True))))) = Inl (OtherError ''inference failed'') \<and>
   clears (snd (generate_batch (demo_env True) [''a'', ''b'', ''bad'', ''c''] plain_kwargs
                  (init (demo_env True)))) = 2"
proof -
  let ?X = "generate_batch (demo_env True) [''a'', ''b''] plain_kwargs (init (demo_env True))"
  let ?Y = "generate_kw (demo_env True) ''bad'' plain_kwargs (snd ?X)"
  have i: "\<not> isl (fst ?X)" by code_simp
  then have h: "?X = (Inr (projr (fst ?X)), snd ?X)"
    by (cases "fst ?X") (auto simp: prod_eq_iff)
  have c: "cuda_is_available (demo_env True)" by (simp add: demo_env_def)
  have z: "clears (init (demo_env True)) = 0" by (simp add: clears_def init_def)
  have f: "fst ?Y = Inl (OtherError ''inference failed'')" by code_simp
  then have y: "?Y = (Inl (OtherError ''inference failed''), snd ?Y)"
    by (simp add: prod_eq_iff)
  have k: "clears (snd ?Y) = 2" by code_simp
  from generate_batch_clears [of "demo_env True" "[''a'', ''b'']" plain_kwargs
      "init (demo_env True)" "projr (fst ?X)" "snd ?X" "[''a'', ''b'']" "projr (fst ?X)" "snd ?X"
      "''bad''" "OtherError ''inference failed''" "snd ?Y" "[''c'']"]
    h y c z i f k
  show ?thesis by (cases "fst ?X") auto
qed

text \<open>
  C6.  \<open>generate_batch\<close> handles the prompts in input order, each by one call of
  \<open>generate\<close>, and stops at the first failure.  Whenever the items before position \<open>i\<close>
  have succeeded with results \<open>rs\<close> (one per item), leaving state \<open>s1\<close>: if \<open>generate\<close> on item
  \<open>i\<close> raises \<open>e\<close> in \<open>s1\<close>, the whole batch raises \<open>e\<close> and ends in the very state that
  failing call left, whatever items follow; if it returns \<open>r\<close>, the batch up to and
  including item \<open>i\<close> returns \<open>rs\<close> followed by \<open>r\<close>.
\<close>

theorem generate_batch_aborts:
  assumes "generate_batch env ps1 kw st = (Inr rs, s1)"
  shows "length rs = length ps1 \<and>
         (generate_kw env p kw s1 = (Inl e, s2) \<longrightarrow>
            generate_batch env (ps1 @ p # ps2) kw st = (Inl e, s2)) \<and>
         (generate_kw env p kw s1 = (Inr r, s2) \<longrightarrow>
            generate_batch env (ps1 @ [p]) kw st =
              (Inr (rs @ [r]),
               if cuda_is_available env then s2\<lparr>trace := trace s2 @ [EvEmptyCache]\<rparr> else s2))"
proof (intro conjI impI)
  from assms show "length rs = length ps1"
    using batch_loop_length [of env kw ps1 "[]" st rs s1] by (simp add: generate_batch_def)
  show "generate_batch env (ps1 @ p # ps2) kw st = (Inl e, s2)"
    if "generate_kw env p kw s1 = (Inl e, s2)"
    using that assms by (simp add: generate_batch_def batch_loop_append bindE_def)
  show "generate_batch env (ps1 @ [p]) kw st =
          (Inr (rs @ [r]),
           if cuda_is_available env then s2\<lparr>trace := trace s2 @ [EvEmptyCache]\<rparr> else s2)"
    if "generate_kw env p kw s1 = (Inr r, s2)"
    using that assms
    by (simp add: generate_batch_def batch_loop_append bindE_def empty_cache_def extern_def
        returnE_def)
qed

theorem generate_batch_aborts_witness:
  "\<not> isl (fst (generate_batch (demo_env True) [''a''] plain_kwargs (init (demo_env True)))) \<and>
   fst (generate_kw (demo_env True) ''bad'' plain_kwargs
          (snd (generate_batch (demo_env True) [''a''] plain_kwargs (init (demo_env True))))) =
     Inl (OtherError ''inference failed'') \<and>
   generate_batch (demo_env True) [''a'', ''bad'', ''c''] plain_kwargs (init (demo_env True)) =
     (Inl (OtherError ''inference failed''),
      snd (generate_kw (demo_env True) ''bad'' plain_kwargs
             (snd (generate_batch (demo_env True) [''a''] plain_kwargs (init (demo_env True)))))) \<and>
   runs (snd (generate_batch (demo_env True) [''a'', ''bad'', ''c''] plain_kwargs
                (init (demo_env True)))) = 2"
proof -
  let ?X = "generate_batch (demo_env True) [''a''] plain_kwargs (init (demo_env True))"
  let ?Y = "generate_kw (demo_env True) ''bad'' plain_kwargs (snd ?X)"
  have i: "\<not> isl (fst ?X)" by code_simp
  then have h: "?X = (Inr (projr (fst ?X)), snd ?X)"
    by (cases "fst ?X") (auto simp: prod_eq_iff)
  have f: "fst ?Y = Inl (OtherError ''inference failed'')" by code_simp
  then have y: "?Y = (Inl (OtherError ''inference failed''), snd ?Y)"
    by (simp add: prod_eq_iff)
  have r: "runs (snd (generate_batch (demo_env True) [''a'', ''bad'', ''c''] plain_kwargs
                (init (demo_env True)))) = 2"
    by code_simp
  from generate_batch_aborts [OF h, of "''bad''" "OtherError ''inference failed''" "snd ?Y" "[''c'']"]
    y i f r
  show ?thesis by simp
qed



lemma registered_iff:
  "registered name \<longleftrightarrow>
     name = ''generate_image'' \<or> name = ''enhance_prompt'' \<or> name = ''create_social_post'' \<or>
     name = ''schedule_content'' \<or> name = ''get_content_calendar'' \<or>
     name = ''brand_assets'' \<or> name = ''analyze_content_performance''"
  by (simp add: registered_def handle_list_tools_def)

lemma required_of_tools:
  "required_of ''generate_image'' = [''prompt'']"
  "required_of ''enhance_prompt'' = [''basic_prompt'']"
  "required_of ''create_social_post'' = [''theme'', ''platform'']"
  "required_of ''schedule_content'' = [''content_id'', ''schedule_time'', ''platforms'']"
  "required_of ''get_content_calendar'' = []"
  "required_of ''brand_assets'' = [''image_path'']"
  "required_of ''analyze_content_performance'' = []"
  by (simp_all add: required_of_def handle_list_tools_def)

lemma unknown_tool:
  "\<not> registered name \<Longrightarrow>
   handle_call_tool env name args st = Some (Inl (ValueError (UnknownTool name)), st)"
  by (simp add: registered_iff handle_call_tool_def failed_def)

lemma missing_generate_image:
  "args ''prompt'' = None \<Longrightarrow>
   handle_call_tool env ''generate_image'' args st = Some (Inl (KeyError ''prompt''), st)"
  by (simp add: handle_call_tool_def subscript_def failed_def)

lemma missing_enhance_prompt:
  "args ''basic_prompt'' = None \<Longrightarrow>
   handle_call_tool env ''enhance_prompt'' args st = Some (Inl (KeyError ''basic_prompt''), st)"
  by (simp add: handle_call_tool_def subscript_def failed_def)

lemma missing_create_social_post:
  "args ''theme'' = None \<or> args ''platform'' = None \<Longrightarrow>
   \<exists>k \<in> {''theme'', ''platform''}. args k = None \<and>
     handle_call_tool env ''create_social_post'' args st = Some (Inl (KeyError k), st)"
  by (cases "args ''theme''") (auto simp: handle_call_tool_def subscript_def failed_def)

lemma missing_schedule_content:
  "args ''content_id'' = None \<or> args ''schedule_time'' = None \<or> args ''platforms'' = None \<Longrightarrow>
   \<exists>k \<in> {''content_id'', ''schedule_time'', ''platforms''}. args k = None \<and>
     handle_call_tool env ''schedule_content'' args st = Some (Inl (KeyError k), st)"
  by (cases "args ''content_id''"; cases "args ''schedule_time''")
     (auto simp: handle_call_tool_def subscript_def failed_def)

lemma missing_brand_assets:
  "args ''image_path'' = None \<Longrightarrow>
   handle_call_tool env ''brand_assets'' args st = Some (Inl (KeyError ''image_path''), st)"
  by (simp add: handle_call_tool_def subscript_def failed_def)

text \<open>
  C3.  A name that is not in the list of tools makes \<open>handle_call_tool\<close> raise the
  \<open>ValueError\<close> for an unknown tool, and a listed name with one of its required arguments
  missing makes it raise \<open>KeyError\<close> for a missing required argument; in both cases the
  state, trace included, is untouched: no collaborator, the generator included, has been
  called.
\<close>

theorem dispatch_validation:
  "(\<not> registered name \<longrightarrow>
      handle_call_tool env name args st = Some (Inl (ValueError (UnknownTool name)), st)) \<and>
   (registered name \<and> (\<exists>k \<in> set (required_of name). args k = None) \<longrightarrow>
      (\<exists>k \<in> set (required_of name). args k = None \<and>
         handle_call_tool env name args st = Some (Inl (KeyError k), st)))"
proof (intro conjI impI)
  assume "\<not> registered name"
  then show "handle_call_tool env name args st = Some (Inl (ValueError (UnknownTool name)), st)"
    by (rule unknown_tool)
next
  assume a: "registered name \<and> (\<exists>k \<in> set (required_of name). args k = None)"
  then have r:
    "name = ''generate_image'' \<or> name = ''enhance_prompt'' \<or> name = ''create_social_post'' \<or>
     name = ''schedule_content'' \<or> name = ''get_content_calendar'' \<or>
     name = ''brand_assets'' \<or> name = ''analyze_content_performance''"
    by (simp add: registered_iff)
  from a have m: "\<exists>k \<in> set (required_of name). args k = None" by simp
  from r show "\<exists>k \<in> set (required_of name). args k = None \<and>
               handle_call_tool env name args st = Some (Inl (KeyError k), st)"
  proof (elim disjE)
    assume "name = ''generate_image''"
    with m show ?thesis by (simp add: required_of_tools missing_generate_image)
  next
    assume "name = ''enhance_prompt''"
    with m show ?thesis by (simp add: required_of_tools missing_enhance_prompt)
  next
    assume "name = ''create_social_post''"
    with m missing_create_social_post [of args env st] show ?thesis
      by (simp add: required_of_tools)
  next
    assume "name = ''schedule_content''"
    with m missing_schedule_content [of args env st] show ?thesis
      by (simp add: required_of_tools)
  next
    assume "name = ''get_content_calendar''"
    with m show ?thesis by (simp add: required_of_tools)
  next
    assume "name = ''brand_assets''"
    with m show ?thesis by (simp add: required_of_tools missing_brand_assets)
  next
    assume "name = ''analyze_content_performance''"
    with m show ?thesis by (simp add: required_of_tools)
  qed
qed

theorem dispatch_validation_witness:
  "\<not> registered ''resize_image'' \<and>
   handle_call_tool (demo_env True) ''resize_image'' Map.empty (init (demo_env True)) =
     Some (Inl (ValueError (UnknownTool ''resize_image'')), init (demo_env True)) \<and>
   registered ''generate_image'' \<and>
   required_of ''generate_image'' = [''prompt''] \<and>
   handle_call_tool (demo_env True) ''generate_image'' [''size'' \<mapsto> PStr ''64x64'']
       (init (demo_env True)) =
     Some (Inl (KeyError ''prompt''), init (demo_env True))"
proof -
  have u: "\<not> registered ''resize_image''"
    by (simp add: registered_iff)
  have g: "registered ''generate_image''"
    by (simp add: registered_iff)
  have q: "required_of ''generate_image'' = [''prompt'']"
    by (simp add: required_of_tools)
  have m: "\<exists>k \<in> set (required_of ''generate_image''). [''size'' \<mapsto> PStr ''64x64''] k = None"
    by (simp add: q)
  from dispatch_validation [of "''resize_image''" "demo_env True" Map.empty "init (demo_env True)"]
    dispatch_validation [of "''generate_image''" "demo_env True" "[''size'' \<mapsto> PStr ''64x64'']"
      "init (demo_env True)"] u g q m
  show ?thesis by simp
qed




end
